theory Spec2Isabelle
  imports Main "HOL-Library.Sublist"
begin

section \<open>Python values\<close>

text \<open>
  The values that flow through the bot are decoded JSON documents and the
  arguments built from them: \<open>None\<close>, booleans, integers, strings, lists and
  dictionaries with string keys (an association list in insertion order, keys
  distinct). \<open>PSet\<close> is the value of a set display; the program builds one in
  \<open>stop_active_time_entry\<close>. JSON numbers with a fraction are not modelled.
  A string is a list of characters read as code points below 256.
\<close>

datatype pyval =
    PNone
  | PBool bool
  | PInt int
  | PStr string
  | PList "pyval list"
  | PDict "(string \<times> pyval) list"
  | PSet "pyval list"

datatype exn =
    ValueError | UnicodeEncodeError | JSONDecodeError
  | TypeError | KeyError | AttributeError | OverflowError
  | HTTPError | RequestException | OtherException

text \<open>An exception: its class and the text \<open>str(e)\<close> gives.\<close>

datatype error = Error exn string

fun message :: "error \<Rightarrow> string" where
  "message (Error c m) = m"

text \<open>
  \<open>except ValueError\<close> also catches the subclasses of \<open>ValueError\<close>; the JSON
  decoding errors of \<open>json\<close> and \<open>requests\<close> and \<open>UnicodeEncodeError\<close> are such.
\<close>

fun is_ValueError :: "error \<Rightarrow> bool" where
  "is_ValueError (Error c m) = (c = ValueError \<or> c = UnicodeEncodeError \<or> c = JSONDecodeError)"

text \<open>Truth value testing (\<open>if x\<close>, \<open>not x\<close>).\<close>

fun truthy :: "pyval \<Rightarrow> bool" where
  "truthy PNone = False"
| "truthy (PBool b) = b"
| "truthy (PInt n) = (n \<noteq> 0)"
| "truthy (PStr s) = (s \<noteq> [])"
| "truthy (PList xs) = (xs \<noteq> [])"
| "truthy (PDict d) = (d \<noteq> [])"
| "truthy (PSet xs) = (xs \<noteq> [])"

text \<open>
  The operator \<open>==\<close>: a boolean equals the integer 0 or 1, lists are compared
  element by element, dictionaries and sets regardless of order.
\<close>

fun py_eq :: "pyval \<Rightarrow> pyval \<Rightarrow> bool" where
  "py_eq PNone PNone = True"
| "py_eq (PBool a) (PBool b) = (a = b)"
| "py_eq (PBool a) (PInt n) = ((if a then 1 else 0) = n)"
| "py_eq (PInt n) (PBool a) = (n = (if a then 1 else 0))"
| "py_eq (PInt m) (PInt n) = (m = n)"
| "py_eq (PStr s) (PStr t) = (s = t)"
| "py_eq (PList xs) (PList ys) = list_all2 py_eq xs ys"
| "py_eq (PDict d) (PDict e) =
     (length d = length e \<and>
      list_all (\<lambda>(k, v). case map_of e k of None \<Rightarrow> False | Some w \<Rightarrow> py_eq v w) d)"
| "py_eq (PSet xs) (PSet ys) =
     (list_all (\<lambda>x. list_ex (\<lambda>y. py_eq x y) ys) xs \<and> length xs = length ys)"
| "py_eq _ _ = False"

fun type_name :: "pyval \<Rightarrow> string" where
  "type_name PNone = ''NoneType''"
| "type_name (PBool b) = ''bool''"
| "type_name (PInt n) = ''int''"
| "type_name (PStr s) = ''str''"
| "type_name (PList xs) = ''list''"
| "type_name (PDict d) = ''dict''"
| "type_name (PSet xs) = ''set''"

definition quote :: "string \<Rightarrow> string" where
  "quote s = [CHR 0x27] @ s @ [CHR 0x27]"

text \<open>\<open>d[k] = v\<close> on the items of a dictionary: replace in place, or append.\<close>

fun dict_set :: "(string \<times> pyval) list \<Rightarrow> string \<Rightarrow> pyval \<Rightarrow> (string \<times> pyval) list" where
  "dict_set [] k v = [(k, v)]"
| "dict_set ((k', v') # d) k v = (if k' = k then (k, v) # d else (k', v') # dict_set d k v)"

text \<open>\<open>x.get(k, default)\<close>: only a dictionary has the method.\<close>

fun py_get :: "pyval \<Rightarrow> string \<Rightarrow> pyval \<Rightarrow> error + pyval" where
  "py_get (PDict d) k dflt = Inr (case map_of d k of None \<Rightarrow> dflt | Some v \<Rightarrow> v)"
| "py_get x k dflt =
     Inl (Error AttributeError (quote (type_name x) @ '' object has no attribute '' @ quote ''get''))"

text \<open>\<open>x[k] = v\<close> with a string key.\<close>

fun py_setitem :: "pyval \<Rightarrow> string \<Rightarrow> pyval \<Rightarrow> error + pyval" where
  "py_setitem (PDict d) k v = Inr (PDict (dict_set d k v))"
| "py_setitem (PList xs) k v =
     Inl (Error TypeError ''list indices must be integers or slices, not str'')"
| "py_setitem x k v =
     Inl (Error TypeError
       (quote (type_name x) @ '' object does not support item assignment''))"

text \<open>\<open>x[k]\<close> with a string key.\<close>

fun py_subscript :: "pyval \<Rightarrow> string \<Rightarrow> error + pyval" where
  "py_subscript (PDict d) k =
     (case map_of d k of
        None \<Rightarrow> Inl (Error KeyError (quote k))
      | Some v \<Rightarrow> Inr v)"
| "py_subscript (PList xs) k =
     Inl (Error TypeError ''list indices must be integers or slices, not str'')"
| "py_subscript (PStr s) k =
     Inl (Error TypeError (''string indices must be integers, not '' @ quote ''str''))"
| "py_subscript x k =
     Inl (Error TypeError (quote (type_name x) @ '' object is not subscriptable''))"

text \<open>\<open>k in x\<close> with a string \<open>k\<close>.\<close>

fun py_in :: "string \<Rightarrow> pyval \<Rightarrow> error + bool" where
  "py_in k (PDict d) = Inr (k \<in> set (map fst d))"
| "py_in k (PList xs) = Inr (list_ex (\<lambda>x. py_eq x (PStr k)) xs)"
| "py_in k (PSet xs) = Inr (list_ex (\<lambda>x. py_eq x (PStr k)) xs)"
| "py_in k (PStr s) = Inr (sublist k s)"
| "py_in k x =
     Inl (Error TypeError (''argument of type '' @ quote (type_name x) @ '' is not iterable''))"

text \<open>The elements a \<open>for\<close> loop visits.\<close>

fun py_iter :: "pyval \<Rightarrow> error + pyval list" where
  "py_iter (PList xs) = Inr xs"
| "py_iter (PSet xs) = Inr xs"
| "py_iter (PDict d) = Inr (map (\<lambda>(k, v). PStr k) d)"
| "py_iter (PStr s) = Inr (map (\<lambda>c. PStr [c]) s)"
| "py_iter x =
     Inl (Error TypeError (quote (type_name x) @ '' object is not iterable''))"

text \<open>
  A set display \<open>{x1, ..., xn}\<close> hashes its elements; lists, dictionaries and
  sets have no hash.
\<close>

fun hashable :: "pyval \<Rightarrow> bool" where
  "hashable (PList xs) = False"
| "hashable (PDict d) = False"
| "hashable (PSet xs) = False"
| "hashable x = True"

fun insert_eq :: "pyval \<Rightarrow> pyval list \<Rightarrow> pyval list" where
  "insert_eq x xs = (if list_ex (\<lambda>y. py_eq x y) xs then xs else xs @ [x])"

fun set_display :: "pyval list \<Rightarrow> pyval list \<Rightarrow> error + pyval" where
  "set_display acc [] = Inr (PSet acc)"
| "set_display acc (x # xs) =
     (if hashable x then set_display (insert_eq x acc) xs
      else Inl (Error TypeError (''unhashable type: '' @ quote (type_name x))))"

text \<open>What \<open>json.dumps\<close> accepts: everything but a set.\<close>

fun json_serializable :: "pyval \<Rightarrow> bool" where
  "json_serializable (PSet xs) = False"
| "json_serializable (PList xs) = list_all json_serializable xs"
| "json_serializable (PDict d) = list_all (\<lambda>(k, v). json_serializable v) d"
| "json_serializable x = True"

section \<open>Strings\<close>

text \<open>\<open>str.isspace\<close> on the code points below 256, and \<open>str.strip()\<close>.\<close>

definition isspace :: "char \<Rightarrow> bool" where
  "isspace c \<longleftrightarrow> (of_char c :: nat) \<in> {9, 10, 11, 12, 13, 28, 29, 30, 31, 32, 133, 160}"

definition lstrip :: "string \<Rightarrow> string" where
  "lstrip s = dropWhile isspace s"

definition rstrip :: "string \<Rightarrow> string" where
  "rstrip s = rev (dropWhile isspace (rev s))"

definition strip :: "string \<Rightarrow> string" where
  "strip s = rstrip (lstrip s)"

definition startswith :: "string \<Rightarrow> string \<Rightarrow> bool" where
  "startswith s p \<longleftrightarrow> prefix p s"

definition endswith :: "string \<Rightarrow> string \<Rightarrow> bool" where
  "endswith s p \<longleftrightarrow> suffix p s"

section \<open>The time-tracking client (features/toggle/toggl\_api.py)\<close>

text \<open>
  A request names the endpoint it goes to (one constructor for each URL
  template of the module, with the value interpolated into it), the API key
  its \<open>Authorization\<close> header is computed from, and the \<open>json=\<close> body.
\<close>

datatype http_method = GET | POST | PUT

datatype endpoint =
    Me
  | WorkspaceClients pyval
  | WorkspaceProjects pyval
  | WorkspaceTimeEntries pyval
  | CurrentTimeEntry
  | StopTimeEntry pyval

record request =
  meth :: http_method
  endpoint :: endpoint
  api_key :: string
  json_body :: "pyval option"

text \<open>
  The outcome of a call of \<open>requests\<close>: the call itself raised, or a response
  with a status code and the outcome of \<open>response.json()\<close>.
\<close>

datatype response =
    RequestFailed error
  | Response int "error + pyval"

text \<open>
  The world outside the program. The remote service answers a request
  depending on the requests made so far; \<open>clock\<close> is what
  \<open>datetime.now(timezone.utc)\<close> reads, a datetime being the number of
  microseconds since the epoch, in UTC; \<open>isoformat\<close> is the rendering of a
  datetime. \<open>generate_intent\<close> is the language model asked with the intent
  prompt and a user text, yielding \<open>response.text\<close>, \<open>generate_audio\<close> the same
  model given audio bytes; \<open>json_loads\<close> is \<open>json.loads\<close>, \<open>download_voice\<close> the
  retrieval of a voice file from the messaging platform.
\<close>

record gemini =
  generate_intent :: "string \<Rightarrow> error + string"
  generate_audio :: "string \<Rightarrow> error + string"

record env =
  TOGGL_API_KEY :: "string option"
  remote :: "request list \<Rightarrow> request \<Rightarrow> response"
  clock :: int
  isoformat :: "int \<Rightarrow> string"
  gemini_model :: "gemini option"
  json_loads :: "string \<Rightarrow> error + pyval"
  download_voice :: "string \<Rightarrow> error + string"

text \<open>
  A client function runs on the list of requests sent so far and returns its
  result, or the exception it raised, with the extended list.
\<close>

type_synonym 'a io = "request list \<Rightarrow> (error + 'a) \<times> request list"

definition get_headers :: "env \<Rightarrow> error + string" where
  "get_headers env =
     (case TOGGL_API_KEY env of
        None \<Rightarrow> Inl (Error ValueError ''TOGGL_API_KEY not set in environment variables.'')
      | Some k \<Rightarrow>
          if k = [] then Inl (Error ValueError ''TOGGL_API_KEY not set in environment variables.'')
          else if list_ex (\<lambda>c. (of_char c :: nat) \<ge> 128) (k @ '':api_token'')
          then Inl (Error UnicodeEncodeError ''ascii codec cannot encode character'')
          else Inr k)"

text \<open>
  \<open>requests.get/post/put\<close>: the body is serialised before anything is sent,
  then the request goes out and is answered.
\<close>

definition send :: "env \<Rightarrow> request \<Rightarrow> request list \<Rightarrow> response \<times> request list" where
  "send env rq log =
     (case json_body rq of
        Some b \<Rightarrow>
          if json_serializable b then (remote env log rq, log @ [rq])
          else (RequestFailed (Error TypeError
                 (''Object of type '' @ ''set'' @ '' is not JSON serializable'')), log)
      | None \<Rightarrow> (remote env log rq, log @ [rq]))"

text \<open>\<open>response.raise_for_status()\<close> followed by \<open>response.json()\<close>.\<close>

fun raise_for_status :: "response \<Rightarrow> error + unit" where
  "raise_for_status (RequestFailed e) = Inl e"
| "raise_for_status (Response st body) =
     (if 400 \<le> st \<and> st < 600 then Inl (Error HTTPError ''HTTP error'') else Inr ())"

fun response_json :: "response \<Rightarrow> error + pyval" where
  "response_json (RequestFailed e) = Inl e"
| "response_json (Response st body) = body"

definition checked_json :: "response \<Rightarrow> error + pyval" where
  "checked_json r = (case raise_for_status r of Inl e \<Rightarrow> Inl e | Inr u \<Rightarrow> response_json r)"

definition get_workspace_id :: "env \<Rightarrow> pyval io" where
  "get_workspace_id env log =
     (case get_headers env of
        Inl e \<Rightarrow> (Inl e, log)
      | Inr headers \<Rightarrow>
          (case send env \<lparr>meth = GET, endpoint = Me, api_key = headers, json_body = None\<rparr> log of
             (resp, log1) \<Rightarrow>
               (case checked_json resp of
                  Inl e \<Rightarrow> (Inl e, log1)
                | Inr data \<Rightarrow>
                    if truthy data then
                      (case py_in ''default_workspace_id'' data of
                         Inl e \<Rightarrow> (Inl e, log1)
                       | Inr True \<Rightarrow> (py_subscript data ''default_workspace_id'', log1)
                       | Inr False \<Rightarrow> (Inr PNone, log1))
                    else (Inr PNone, log1))))"

definition get_clients :: "env \<Rightarrow> pyval io" where
  "get_clients env log =
     (case get_workspace_id env log of
        (Inl e, log1) \<Rightarrow> (Inl e, log1)
      | (Inr workspace_id, log1) \<Rightarrow>
          if \<not> truthy workspace_id then (Inr (PList []), log1)
          else
            (case get_headers env of
               Inl e \<Rightarrow> (Inl e, log1)
             | Inr headers \<Rightarrow>
                 (case send env \<lparr>meth = GET, endpoint = WorkspaceClients workspace_id,
                                 api_key = headers, json_body = None\<rparr> log1 of
                    (resp, log2) \<Rightarrow> (checked_json resp, log2))))"

text \<open>
  The comprehension \<open>[p for p in all_projects if p.get("client_id") == client_id]\<close>
  over the elements of \<open>all_projects\<close>; the first element without \<open>get\<close> raises.
\<close>

fun filter_client :: "pyval list \<Rightarrow> pyval \<Rightarrow> error + pyval list" where
  "filter_client [] client_id = Inr []"
| "filter_client (p # ps) client_id =
     (case py_get p ''client_id'' PNone of
        Inl e \<Rightarrow> Inl e
      | Inr c \<Rightarrow>
          (case filter_client ps client_id of
             Inl e \<Rightarrow> Inl e
           | Inr r \<Rightarrow> Inr (if py_eq c client_id then p # r else r)))"

definition get_projects :: "env \<Rightarrow> pyval \<Rightarrow> pyval io" where
  "get_projects env client_id log =
     (case get_workspace_id env log of
        (Inl e, log1) \<Rightarrow> (Inl e, log1)
      | (Inr workspace_id, log1) \<Rightarrow>
          if \<not> truthy workspace_id then (Inr (PList []), log1)
          else
            (case get_headers env of
               Inl e \<Rightarrow> (Inl e, log1)
             | Inr headers \<Rightarrow>
                 (case send env \<lparr>meth = GET, endpoint = WorkspaceProjects workspace_id,
                                 api_key = headers, json_body = None\<rparr> log1 of
                    (resp, log2) \<Rightarrow>
                      (case checked_json resp of
                         Inl e \<Rightarrow> (Inl e, log2)
                       | Inr all_projects \<Rightarrow>
                           if truthy client_id then
                             (case py_iter all_projects of
                                Inl e \<Rightarrow> (Inl e, log2)
                              | Inr ps \<Rightarrow>
                                  (case filter_client ps client_id of
                                     Inl e \<Rightarrow> (Inl e, log2)
                                   | Inr r \<Rightarrow> (Inr (PList r), log2)))
                           else (Inr all_projects, log2)))))"

definition start_time_entry :: "env \<Rightarrow> pyval \<Rightarrow> pyval \<Rightarrow> pyval io" where
  "start_time_entry env description project_id log =
     (case get_workspace_id env log of
        (Inl e, log1) \<Rightarrow> (Inl e, log1)
      | (Inr workspace_id, log1) \<Rightarrow>
          if \<not> truthy workspace_id
          then (Inl (Error ValueError ''Could not determine workspace ID.''), log1)
          else
            (case get_headers env of
               Inl e \<Rightarrow> (Inl e, log1)
             | Inr headers \<Rightarrow>
                 (case send env
                    \<lparr>meth = POST, endpoint = WorkspaceTimeEntries workspace_id, api_key = headers,
                     json_body = Some (PDict
                       [(''billable'', PBool False),
                        (''description'', description),
                        (''project_id'', project_id),
                        (''workspace_id'', workspace_id),
                        (''created_with'', PStr ''Personal Assistant Bot'')])\<rparr> log1 of
                    (resp, log2) \<Rightarrow> (checked_json resp, log2))))"

definition stop_active_time_entry :: "env \<Rightarrow> pyval io" where
  "stop_active_time_entry env log =
     (case get_headers env of
        Inl e \<Rightarrow> (Inl e, log)
      | Inr headers \<Rightarrow>
          (case send env \<lparr>meth = GET, endpoint = CurrentTimeEntry, api_key = headers,
                          json_body = None\<rparr> log of
             (resp, log1) \<Rightarrow>
               (case checked_json resp of
                  Inl e \<Rightarrow> (Inl e, log1)
                | Inr current_entry \<Rightarrow>
                    if \<not> truthy current_entry then (Inr PNone, log1)
                    else
                      (case py_subscript current_entry ''id'' of
                         Inl e \<Rightarrow> (Inl e, log1)
                       | Inr time_entry_id \<Rightarrow>
                           \<comment> \<open>the argument \<open>json={{}}\<close>: a set display of one empty dictionary\<close>
                           (case set_display [] [PDict []] of
                              Inl e \<Rightarrow> (Inl e, log1)
                            | Inr body \<Rightarrow>
                                (case send env
                                   \<lparr>meth = PUT, endpoint = StopTimeEntry time_entry_id,
                                    api_key = headers, json_body = Some body\<rparr> log1 of
                                   (resp2, log2) \<Rightarrow> (checked_json resp2, log2)))))))"

text \<open>
  \<open>timedelta(seconds=x)\<close> in microseconds: the day count must stay within
  999999999 in magnitude; a datetime stays between the years 1 and 9999.
\<close>

definition timedelta_seconds :: "pyval \<Rightarrow> error + int" where
  "timedelta_seconds x =
     (case x of
        PInt n \<Rightarrow>
          if - 999999999 \<le> n div 86400 \<and> n div 86400 \<le> 999999999 then Inr (n * 1000000)
          else Inl (Error OverflowError ''days must have magnitude <= 999999999'')
      | PBool b \<Rightarrow> Inr (if b then 1000000 else 0)
      | _ \<Rightarrow> Inl (Error TypeError
                 (''unsupported type for timedelta seconds component: '' @ type_name x)))"

definition datetime_min :: int where
  "datetime_min = - 62135596800000000"

definition datetime_max :: int where
  "datetime_max = 253402300799999999"

definition datetime_add :: "int \<Rightarrow> int \<Rightarrow> error + int" where
  "datetime_add t d =
     (if datetime_min \<le> t + d \<and> t + d \<le> datetime_max then Inr (t + d)
      else Inl (Error OverflowError ''date value out of range''))"

definition datetime_sub :: "int \<Rightarrow> int \<Rightarrow> error + int" where
  "datetime_sub t d = datetime_add t (- d)"

text \<open>The pair \<open>(start, stop)\<close> computed by \<open>create_time_entry\<close>.\<close>

definition start_stop :: "env \<Rightarrow> pyval \<Rightarrow> int option \<Rightarrow> error + (string \<times> string)" where
  "start_stop env duration_seconds start_time =
     (let now = clock env in
      case start_time of
        Some t \<Rightarrow>
          (case timedelta_seconds duration_seconds of
             Inl e \<Rightarrow> Inl e
           | Inr d \<Rightarrow>
               (case datetime_add t d of
                  Inl e \<Rightarrow> Inl e
                | Inr s \<Rightarrow> Inr (isoformat env t, isoformat env s)))
      | None \<Rightarrow>
          (case timedelta_seconds duration_seconds of
             Inl e \<Rightarrow> Inl e
           | Inr d \<Rightarrow>
               (case datetime_sub now d of
                  Inl e \<Rightarrow> Inl e
                | Inr s \<Rightarrow> Inr (isoformat env s, isoformat env now))))"

text \<open>The \<open>payload\<close> dictionary of \<open>create_time_entry\<close>.\<close>

definition entry_payload ::
  "pyval \<Rightarrow> pyval \<Rightarrow> pyval \<Rightarrow> string \<Rightarrow> string \<Rightarrow> pyval \<Rightarrow> pyval" where
  "entry_payload description project_id workspace_id start stop duration_seconds =
     PDict [(''billable'', PBool False),
            (''description'', description),
            (''project_id'', project_id),
            (''workspace_id'', workspace_id),
            (''created_with'', PStr ''Personal Assistant Bot''),
            (''start'', PStr start),
            (''stop'', PStr stop),
            (''duration'', duration_seconds)]"

definition create_time_entry ::
  "env \<Rightarrow> pyval \<Rightarrow> pyval \<Rightarrow> pyval \<Rightarrow> int option \<Rightarrow> pyval io" where
  "create_time_entry env description duration_seconds project_id start_time log =
     (case get_workspace_id env log of
        (Inl e, log1) \<Rightarrow> (Inl e, log1)
      | (Inr workspace_id, log1) \<Rightarrow>
          if \<not> truthy workspace_id
          then (Inl (Error ValueError ''Could not determine workspace ID.''), log1)
          else
            (case get_headers env of
               Inl e \<Rightarrow> (Inl e, log1)
             | Inr headers \<Rightarrow>
                 (case start_stop env duration_seconds start_time of
                    Inl e \<Rightarrow> (Inl e, log1)
                  | Inr (start, stop) \<Rightarrow>
                      (case send env
                         \<lparr>meth = POST, endpoint = WorkspaceTimeEntries workspace_id,
                          api_key = headers,
                          json_body = Some (entry_payload description project_id workspace_id
                                              start stop duration_seconds)\<rparr> log1 of
                         (resp, log2) \<Rightarrow> (checked_json resp, log2)))))"

section \<open>The intent classifier and the handlers (app.py)\<close>

text \<open>
  The two fence tests of \<open>get_gemini_intent\<close>: \<open>response_text[7:]\<close> after a
  leading \<open>```json\<close>, \<open>response_text[:-3]\<close> before a trailing \<open>```\<close>.
\<close>

definition strip_leading_fence :: "string \<Rightarrow> string" where
  "strip_leading_fence response_text =
     (if startswith response_text ''```json'' then drop 7 response_text else response_text)"

definition strip_trailing_fence :: "string \<Rightarrow> string" where
  "strip_trailing_fence response_text =
     (if endswith response_text ''```''
      then take (length response_text - 3) response_text else response_text)"

definition strip_fences :: "string \<Rightarrow> string" where
  "strip_fences response_text = strip_trailing_fence (strip_leading_fence response_text)"

text \<open>The text handed to \<open>json.loads\<close> for a reply of the model.\<close>

definition extract_json :: "string \<Rightarrow> string" where
  "extract_json reply_text = strip_fences (strip reply_text)"

text \<open>The body of the \<open>try\<close> block of \<open>get_gemini_intent\<close>.\<close>

definition classify :: "env \<Rightarrow> gemini \<Rightarrow> string \<Rightarrow> error + pyval" where
  "classify env model text =
     (case generate_intent model text of
        Inl e \<Rightarrow> Inl e
      | Inr reply_text \<Rightarrow>
          (case json_loads env (extract_json reply_text) of
             Inl e \<Rightarrow> Inl e
           | Inr intent \<Rightarrow> py_setitem intent ''raw_text'' (PStr text)))"

definition get_gemini_intent :: "env \<Rightarrow> string \<Rightarrow> error + pyval" where
  "get_gemini_intent env text =
     (case gemini_model env of
        None \<Rightarrow> Inr (PDict [(''action'', PStr ''none''), (''raw_text'', PStr text)])
      | Some model \<Rightarrow>
          (case classify env model text of
             Inr intent \<Rightarrow> Inr intent
           | Inl e \<Rightarrow>
               Inr (PDict [(''action'', PStr ''none''), (''raw_text'', PStr text),
                           (''error'', PStr (message e))])))"

definition transcribe_audio :: "env \<Rightarrow> string \<Rightarrow> error + string" where
  "transcribe_audio env audio_bytes =
     (case gemini_model env of
        None \<Rightarrow> Inl (Error ValueError
                 ''Gemini model not initialized. GEMINI_API_KEY might be missing.'')
      | Some model \<Rightarrow> generate_audio model audio_bytes)"

text \<open>
  A reply sent to the chat: a fixed text, or one constructor for each
  formatted message, holding the values formatted into it.
\<close>

datatype reply =
    Text string
  | StartedTimer pyval pyval
  | AddedEntry pyval pyval pyval
  | StoppedTimer pyval
  | NotSure pyval
  | UnknownAction pyval pyval
  | TogglApiError error
  | ActionError error
  | Transcription string
  | VoiceFailed error

text \<open>A call of a function of the time-tracking client, with its arguments.\<close>

datatype toggl_call =
    StartTimeEntry pyval pyval
  | CreateTimeEntry pyval pyval pyval
  | StopActiveTimeEntry

definition select_project_prompt :: string where
  "select_project_prompt = ''Please select a project first using /toggl_clients.''"

definition need_duration_prompt :: string where
  "need_duration_prompt =
     ''I need a duration to add a time entry. E.g., '' @ quote ''add 30 minutes for meeting'' @ ''.''"

text \<open>
  The statements inside \<open>try\<close> (the same in \<open>handle_text_message\<close> and in
  \<open>voice_message_handler\<close>): the replies made, or the exception raised, with
  the client calls made and the requests sent.
\<close>

definition toggl_action ::
  "env \<Rightarrow> pyval \<Rightarrow> pyval \<Rightarrow> pyval \<Rightarrow> pyval \<Rightarrow> pyval \<Rightarrow> request list
   \<Rightarrow> (error + reply list) \<times> toggl_call list \<times> request list" where
  "toggl_action env intent action description duration_seconds project_id log =
     (if py_eq action (PStr ''start_timer'') then
        if \<not> truthy project_id then (Inr [Text select_project_prompt], [], log)
        else
          (case start_time_entry env description project_id log of
             (Inl e, log1) \<Rightarrow> (Inl e, [StartTimeEntry description project_id], log1)
           | (Inr entry, log1) \<Rightarrow>
               (Inr [StartedTimer description project_id],
                [StartTimeEntry description project_id], log1))
      else if py_eq action (PStr ''add_entry'') then
        if \<not> truthy project_id then (Inr [Text select_project_prompt], [], log)
        else if \<not> truthy duration_seconds then (Inr [Text need_duration_prompt], [], log)
        else
          (case create_time_entry env description duration_seconds project_id None log of
             (Inl e, log1) \<Rightarrow>
               (Inl e, [CreateTimeEntry description duration_seconds project_id], log1)
           | (Inr entry, log1) \<Rightarrow>
               (Inr [AddedEntry description duration_seconds project_id],
                [CreateTimeEntry description duration_seconds project_id], log1))
      else if py_eq action (PStr ''stop_timer'') then
        (case stop_active_time_entry env log of
           (Inl e, log1) \<Rightarrow> (Inl e, [StopActiveTimeEntry], log1)
         | (Inr stopped_entry, log1) \<Rightarrow>
             if truthy stopped_entry then
               (case py_get stopped_entry ''description'' (PStr ''No description'') of
                  Inl e \<Rightarrow> (Inl e, [StopActiveTimeEntry], log1)
                | Inr d \<Rightarrow> (Inr [StoppedTimer d], [StopActiveTimeEntry], log1))
             else (Inr [Text ''No active Toggl timer found to stop.''],
                   [StopActiveTimeEntry], log1))
      else if py_eq action (PStr ''get_status'') then
        (Inr [Text (''Toggl status check is not yet fully implemented. '' @
                    ''I can tell you if a timer is running here.'')], [], log)
      else if py_eq action (PStr ''none'') then (Inr [NotSure intent], [], log)
      else (Inr [UnknownAction action intent], [], log))"

text \<open>The \<open>try\<close> statement with its two \<open>except\<close> clauses.\<close>

definition dispatch_action ::
  "env \<Rightarrow> pyval \<Rightarrow> pyval \<Rightarrow> pyval \<Rightarrow> pyval \<Rightarrow> pyval \<Rightarrow> request list
   \<Rightarrow> reply list \<times> toggl_call list \<times> request list" where
  "dispatch_action env intent action description duration_seconds project_id log =
     (case toggl_action env intent action description duration_seconds project_id log of
        (Inr rs, cs, log1) \<Rightarrow> (rs, cs, log1)
      | (Inl e, cs, log1) \<Rightarrow>
          (if is_ValueError e then [TogglApiError e] else [ActionError e], cs, log1))"

text \<open>
  What a handler did: the replies in order, the client calls, the requests
  sent (appended to those sent before), \<open>context.user_data\<close> afterwards, and
  the exception that left the handler, if one did.
\<close>

record outcome =
  replies :: "reply list"
  calls :: "toggl_call list"
  requests :: "request list"
  user_data :: "(string \<times> pyval) list"
  raised :: "error option"

definition user_data_get :: "(string \<times> pyval) list \<Rightarrow> string \<Rightarrow> pyval" where
  "user_data_get ud k = (case map_of ud k of None \<Rightarrow> PNone | Some v \<Rightarrow> v)"

definition handle_text_message ::
  "env \<Rightarrow> (string \<times> pyval) list \<Rightarrow> string \<Rightarrow> request list \<Rightarrow> outcome" where
  "handle_text_message env ud user_text log =
     (case gemini_model env of
        None \<Rightarrow>
          \<lparr>replies = [Text (''Gemini features are disabled. Please provide a '' @
                            ''GEMINI_API_KEY to enable smart processing.'')],
           calls = [], requests = log, user_data = ud, raised = None\<rparr>
      | Some model \<Rightarrow>
          (case get_gemini_intent env user_text of
             Inl e \<Rightarrow> \<lparr>replies = [], calls = [], requests = log, user_data = ud, raised = Some e\<rparr>
           | Inr intent \<Rightarrow>
               (let ud1 = dict_set ud ''last_intent'' intent in
                case py_get intent ''action'' PNone of
                  Inl e \<Rightarrow>
                    \<lparr>replies = [], calls = [], requests = log, user_data = ud1, raised = Some e\<rparr>
                | Inr action \<Rightarrow>
                    (case py_get intent ''description'' (PStr user_text) of
                       Inl e \<Rightarrow>
                         \<lparr>replies = [], calls = [], requests = log, user_data = ud1,
                          raised = Some e\<rparr>
                     | Inr description \<Rightarrow>
                         (case py_get intent ''duration_seconds'' PNone of
                            Inl e \<Rightarrow>
                              \<lparr>replies = [], calls = [], requests = log, user_data = ud1,
                               raised = Some e\<rparr>
                          | Inr duration_seconds \<Rightarrow>
                              (case dispatch_action env intent action description duration_seconds
                                      (user_data_get ud1 ''selected_project_id'') log of
                                 (rs, cs, log1) \<Rightarrow>
                                   \<lparr>replies = rs, calls = cs, requests = log1, user_data = ud1,
                                    raised = None\<rparr>))))))"

definition voice_message_handler ::
  "env \<Rightarrow> (string \<times> pyval) list \<Rightarrow> string \<Rightarrow> request list \<Rightarrow> outcome" where
  "voice_message_handler env ud file_id log =
     (case gemini_model env of
        None \<Rightarrow>
          \<lparr>replies = [Text ''Gemini features are disabled. GEMINI_API_KEY might be missing.''],
           calls = [], requests = log, user_data = ud, raised = None\<rparr>
      | Some model \<Rightarrow>
          (let r0 = [Text ''Processing your voice message...''] in
           case download_voice env file_id of
             Inl e \<Rightarrow>
               \<lparr>replies = r0 @ [VoiceFailed e], calls = [], requests = log, user_data = ud,
                raised = None\<rparr>
           | Inr audio_bytes \<Rightarrow>
               (case transcribe_audio env audio_bytes of
                  Inl e \<Rightarrow>
                    \<lparr>replies = r0 @ [VoiceFailed e], calls = [], requests = log, user_data = ud,
                     raised = None\<rparr>
                | Inr transcribed_text \<Rightarrow>
                    (let r1 = r0 @ [Transcription transcribed_text] in
                     case get_gemini_intent env transcribed_text of
                       Inl e \<Rightarrow>
                         \<lparr>replies = r1 @ [VoiceFailed e], calls = [], requests = log,
                          user_data = ud, raised = None\<rparr>
                     | Inr intent \<Rightarrow>
                         (let ud1 = dict_set (dict_set ud ''last_transcription''
                                       (PStr transcribed_text)) ''last_intent'' intent in
                          case py_get intent ''action'' PNone of
                            Inl e \<Rightarrow>
                              \<lparr>replies = r1 @ [VoiceFailed e], calls = [], requests = log,
                               user_data = ud1, raised = None\<rparr>
                          | Inr action \<Rightarrow>
                              (case py_get intent ''description'' (PStr transcribed_text) of
                                 Inl e \<Rightarrow>
                                   \<lparr>replies = r1 @ [VoiceFailed e], calls = [], requests = log,
                                    user_data = ud1, raised = None\<rparr>
                               | Inr description \<Rightarrow>
                                   (case py_get intent ''duration_seconds'' PNone of
                                      Inl e \<Rightarrow>
                                        \<lparr>replies = r1 @ [VoiceFailed e], calls = [],
                                         requests = log, user_data = ud1, raised = None\<rparr>
                                    | Inr duration_seconds \<Rightarrow>
                                        (case dispatch_action env intent action description
                                                duration_seconds
                                                (user_data_get ud1 ''selected_project_id'') log of
                                           (rs, cs, log1) \<Rightarrow>
                                             \<lparr>replies = r1 @ rs, calls = cs, requests = log1,
                                              user_data = ud1, raised = None\<rparr>))))))))"

section \<open>Vocabulary of the statements\<close>

definition is_dict :: "pyval \<Rightarrow> bool" where
  "is_dict x = (case x of PDict d \<Rightarrow> True | _ \<Rightarrow> False)"

definition field :: "pyval \<Rightarrow> string \<Rightarrow> pyval" where
  "field x k =
     (case x of PDict d \<Rightarrow> (case map_of d k of None \<Rightarrow> PNone | Some v \<Rightarrow> v) | _ \<Rightarrow> PNone)"





section \<open>A sample world\<close>

definition json_ws :: "char \<Rightarrow> bool" where
  "json_ws c \<longleftrightarrow> (of_char c :: nat) \<in> {9, 10, 13, 32}"

definition sample_projects :: "pyval list" where
  "sample_projects =
     [PDict [(''id'', PInt 1), (''name'', PStr ''site''), (''client_id'', PInt 7)],
      PDict [(''id'', PInt 2), (''name'', PStr ''inbox''), (''client_id'', PInt 0)],
      PDict [(''id'', PInt 3), (''name'', PStr ''home'')],
      PDict [(''id'', PInt 4), (''name'', PStr ''shop''), (''client_id'', PInt 7)]]"

definition sample_remote :: "pyval \<Rightarrow> request list \<Rightarrow> request \<Rightarrow> response" where
  "sample_remote me log rq =
     (case endpoint rq of
        Me \<Rightarrow> Response 200 (Inr me)
      | WorkspaceClients w \<Rightarrow> Response 200 (Inr (PList [PDict [(''id'', PInt 7), (''name'', PStr ''ACME'')]]))
      | WorkspaceProjects w \<Rightarrow> Response 200 (Inr (PList sample_projects))
      | WorkspaceTimeEntries w \<Rightarrow>
          Response 200 (Inr (case json_body rq of None \<Rightarrow> PNone | Some b \<Rightarrow> b))
      | CurrentTimeEntry \<Rightarrow>
          Response 200 (Inr (PDict [(''id'', PInt 5), (''description'', PStr ''coding'')]))
      | StopTimeEntry i \<Rightarrow> Response 200 (Inr (PDict [(''id'', i), (''description'', PStr ''coding'')])))"

definition sample_isoformat :: "int \<Rightarrow> string" where
  "sample_isoformat t =
     (if t = 0 then ''1970-01-01T00:00:00+00:00''
      else if t = 1800000000 then ''1970-01-01T00:30:00+00:00''
      else if t = 3600000000 then ''1970-01-01T01:00:00+00:00''
      else ''1970-01-01T00:00:01+00:00'')"

definition sample_loads :: "string \<Rightarrow> error + pyval" where
  \<open>sample_loads s =
     (let t = rev (dropWhile json_ws (rev (dropWhile json_ws s))) in
      if t = ''{"action": "start_timer"}'' then Inr (PDict [(''action'', PStr ''start_timer'')])
      else if t = ''{"action": "add_entry"}'' then Inr (PDict [(''action'', PStr ''add_entry'')])
      else if t = ''{"action": "add_entry", "duration_seconds": 1800}''
      then Inr (PDict [(''action'', PStr ''add_entry''), (''duration_seconds'', PInt 1800)])
      else if t = ''{"action": "stop_timer"}'' then Inr (PDict [(''action'', PStr ''stop_timer'')])
      else Inl (Error JSONDecodeError ''Expecting value: line 1 column 1 (char 0)''))\<close>

definition sample_env :: "error + string \<Rightarrow> pyval \<Rightarrow> env" where
  "sample_env reply_text me =
     \<lparr>TOGGL_API_KEY = Some ''secret'',
      remote = sample_remote me,
      clock = 1800000000,
      isoformat = sample_isoformat,
      gemini_model = Some \<lparr>generate_intent = (\<lambda>text. reply_text),
                            generate_audio = (\<lambda>audio. Inr ''add half an hour of reading'')\<rparr>,
      json_loads = sample_loads,
      download_voice = (\<lambda>file_id. Inr ''OggS'')\<rparr>"

definition sample_me :: pyval where
  "sample_me = PDict [(''id'', PInt 9), (''default_workspace_id'', PInt 42)]"


definition start_reply :: string where
  \<open>start_reply = ''```json'' @ [CHR 0x0A] @ ''{"action": "start_timer"}'' @ [CHR 0x0A] @ ''```''\<close>

definition add_reply :: string where
  \<open>add_reply = ''{"action": "add_entry"}''\<close>

definition add_1800_reply :: string where
  \<open>add_1800_reply = ''{"action": "add_entry", "duration_seconds": 1800}''\<close>

definition broken_reply :: string where
  \<open>broken_reply = ''```json'' @ [CHR 0x0A] @ ''{"action": "stop_timer"''\<close>



section \<open>The client\<close>

lemma send_no_body:
  "json_body rq = None \<Longrightarrow> send env rq log = (remote env log rq, log @ [rq])"
  by (simp add: send_def)

lemma checked_json_ok:
  "\<not> (400 \<le> st \<and> st < 600) \<Longrightarrow> checked_json (Response st body) = body"
  by (auto simp add: checked_json_def)

lemma sample_headers: "get_headers (sample_env r me) = Inr ''secret''"
  by (simp add: get_headers_def sample_env_def)

lemma get_workspace_id_resolved:
  assumes "get_headers env = Inr h"
    and "remote env log \<lparr>meth = GET, endpoint = Me, api_key = h, json_body = None\<rparr>
           = Response st (Inr (PDict d))"
    and "\<not> (400 \<le> st \<and> st < 600)"
    and "map_of d ''default_workspace_id'' = Some ws"
  shows "get_workspace_id env log =
           (Inr ws, log @ [\<lparr>meth = GET, endpoint = Me, api_key = h, json_body = None\<rparr>])"
proof -
  from assms(4) have "''default_workspace_id'' \<in> fst ` set d" and "d \<noteq> []"
    by (auto dest: map_of_SomeD intro: rev_image_eqI)
  with assms show ?thesis
    by (simp add: get_workspace_id_def send_no_body checked_json_ok)
qed

lemma sample_remote_me:
  "remote (sample_env r me) log \<lparr>meth = GET, endpoint = Me, api_key = h, json_body = None\<rparr>
     = Response 200 (Inr me)"
  by (simp add: sample_env_def sample_remote_def)

lemma sample_workspace:
  "get_workspace_id (sample_env r sample_me) log =
     (Inr (PInt 42), log @ [\<lparr>meth = GET, endpoint = Me, api_key = ''secret'', json_body = None\<rparr>])"
  by (rule get_workspace_id_resolved [OF sample_headers, where st = 200 and d = "[(''id'', PInt 9), (''default_workspace_id'', PInt 42)]"])
     (simp_all add: sample_remote_me sample_me_def)

text \<open>
  Claim C8. When the current-user endpoint answers successfully and the body
  is null or an object without the key \<open>default_workspace_id\<close>,
  \<open>get_workspace_id\<close> returns \<open>None\<close>; it raises nothing, and the one request
  it sent is the \<open>GET\<close> of the current user.
\<close>

theorem get_workspace_id_missing_field:
  assumes "get_headers env = Inr h"
    and "remote env log \<lparr>meth = GET, endpoint = Me, api_key = h, json_body = None\<rparr>
           = Response st (Inr data)"
    and "\<not> (400 \<le> st \<and> st < 600)"
    and "data = PNone \<or> data = PDict d"
    and "''default_workspace_id'' \<notin> fst ` set d"
  shows "get_workspace_id env log =
           (Inr PNone, log @ [\<lparr>meth = GET, endpoint = Me, api_key = h, json_body = None\<rparr>])"
  using assms
  by (auto simp add: get_workspace_id_def send_no_body checked_json_ok)

theorem get_workspace_id_missing_field_witness:
  "get_workspace_id (sample_env (Inr []) (PDict [(''id'', PInt 9), (''fullname'', PStr ''T'')])) []
     = (Inr PNone, [\<lparr>meth = GET, endpoint = Me, api_key = ''secret'', json_body = None\<rparr>])"
  using get_workspace_id_missing_field
    [of "sample_env (Inr []) (PDict [(''id'', PInt 9), (''fullname'', PStr ''T'')])" "''secret''" "[]"
        200 "PDict [(''id'', PInt 9), (''fullname'', PStr ''T'')]" "[(''id'', PInt 9), (''fullname'', PStr ''T'')]"]
  by (simp add: sample_headers sample_remote_me)

lemma get_projects_resolved:
  assumes "get_workspace_id env log = (Inr ws, log1)" and "truthy ws"
    and "get_headers env = Inr h"
    and "remote env log1 \<lparr>meth = GET, endpoint = WorkspaceProjects ws, api_key = h,
            json_body = None\<rparr> = Response st (Inr all_projects)"
    and "\<not> (400 \<le> st \<and> st < 600)"
  shows "get_projects env c log =
     (if truthy c then
        (case py_iter all_projects of
           Inl e \<Rightarrow> Inl e
         | Inr ps \<Rightarrow> (case filter_client ps c of Inl e \<Rightarrow> Inl e | Inr r \<Rightarrow> Inr (PList r)))
      else Inr all_projects,
      log1 @ [\<lparr>meth = GET, endpoint = WorkspaceProjects ws, api_key = h, json_body = None\<rparr>])"
  using assms
  by (auto simp add: get_projects_def send_no_body checked_json_ok split: sum.splits)

lemma filter_client_dicts:
  "list_all is_dict ps \<Longrightarrow>
   filter_client ps c = Inr (filter (\<lambda>p. py_eq (field p ''client_id'') c) ps)"
  by (induction ps) (auto simp add: is_dict_def field_def split: pyval.splits option.splits)

lemma sample_projects_response:
  "remote (sample_env r me) log
     \<lparr>meth = GET, endpoint = WorkspaceProjects w, api_key = h, json_body = None\<rparr>
   = Response 200 (Inr (PList sample_projects))"
  by (simp add: sample_env_def sample_remote_def)

text \<open>
  Claim C4, as stated, at the client id 0: the list comes back whole, while
  the projects whose \<open>client_id\<close> equals 0 are only the second one.
\<close>

theorem get_projects_zero_counterexample:
  "fst (get_projects (sample_env (Inr []) sample_me) (PInt 0) []) = Inr (PList sample_projects)
   \<and> filter (\<lambda>p. py_eq (field p ''client_id'') (PInt 0)) sample_projects
       = [PDict [(''id'', PInt 2), (''name'', PStr ''inbox''), (''client_id'', PInt 0)]]
   \<and> fst (get_projects (sample_env (Inr []) sample_me) (PInt 0) [])
       \<noteq> Inr (PList (filter (\<lambda>p. py_eq (field p ''client_id'') (PInt 0)) sample_projects))"
  by (simp add: get_projects_resolved [OF sample_workspace _ sample_headers sample_projects_response]
      sample_projects_def field_def)

text \<open>
  Claim C4, amended. For a list of project objects and a client id that is
  truthy (not 0), \<open>get_projects\<close> returns the projects whose \<open>client_id\<close>
  equals it, in their order in the list; with no client id it returns the
  whole list.
\<close>

theorem get_projects_filters:
  assumes "get_workspace_id env log = (Inr ws, log1)" and "truthy ws"
    and "get_headers env = Inr h"
    and "remote env log1 \<lparr>meth = GET, endpoint = WorkspaceProjects ws, api_key = h,
            json_body = None\<rparr> = Response st (Inr (PList ps))"
    and "\<not> (400 \<le> st \<and> st < 600)"
    and "list_all is_dict ps"
  shows "(truthy c \<longrightarrow>
            fst (get_projects env c log)
              = Inr (PList (filter (\<lambda>p. py_eq (field p ''client_id'') c) ps)))
       \<and> fst (get_projects env PNone log) = Inr (PList ps)"
  using assms(6)
  by (simp add: get_projects_resolved [OF assms(1-5)] filter_client_dicts)

theorem get_projects_filters_witness:
  "truthy (PInt 7)
   \<and> fst (get_projects (sample_env (Inr []) sample_me) (PInt 7) [])
       = Inr (PList [PDict [(''id'', PInt 1), (''name'', PStr ''site''), (''client_id'', PInt 7)],
                     PDict [(''id'', PInt 4), (''name'', PStr ''shop''), (''client_id'', PInt 7)]])
   \<and> fst (get_projects (sample_env (Inr []) sample_me) PNone []) = Inr (PList sample_projects)"
proof -
  have ws: "get_workspace_id (sample_env (Inr []) sample_me) [] =
      (Inr (PInt 42), [] @ [\<lparr>meth = GET, endpoint = Me, api_key = ''secret'', json_body = None\<rparr>])"
    by (rule sample_workspace)
  show ?thesis
    using get_projects_filters [OF ws _ sample_headers sample_projects_response, where c = "PInt 7"]
    by (simp add: sample_projects_def is_dict_def field_def)
qed

text \<open>
  Claim C9. With the client id 0, \<open>get_projects\<close> returns the whole list the
  endpoint gave, as it does with no client id, not the projects of client 0.
\<close>

theorem get_projects_client_zero:
  assumes "get_workspace_id env log = (Inr ws, log1)" and "truthy ws"
    and "get_headers env = Inr h"
    and "remote env log1 \<lparr>meth = GET, endpoint = WorkspaceProjects ws, api_key = h,
            json_body = None\<rparr> = Response st (Inr all_projects)"
    and "\<not> (400 \<le> st \<and> st < 600)"
  shows "fst (get_projects env (PInt 0) log) = Inr all_projects
       \<and> get_projects env (PInt 0) log = get_projects env PNone log"
  by (simp add: get_projects_resolved [OF assms])

theorem get_projects_client_zero_witness:
  "fst (get_projects (sample_env (Inr []) sample_me) (PInt 0) []) = Inr (PList sample_projects)
   \<and> length sample_projects = 4
   \<and> length (filter (\<lambda>p. py_eq (field p ''client_id'') (PInt 0)) sample_projects) = 1"
proof -
  have ws: "get_workspace_id (sample_env (Inr []) sample_me) [] =
      (Inr (PInt 42), [] @ [\<lparr>meth = GET, endpoint = Me, api_key = ''secret'', json_body = None\<rparr>])"
    by (rule sample_workspace)
  show ?thesis
    using get_projects_client_zero [OF ws _ sample_headers sample_projects_response,
        THEN conjunct1]
    by (simp add: sample_projects_def field_def)
qed

text \<open>
  \<open>stop_active_time_entry\<close>: with nothing running it returns \<open>None\<close> after one
  \<open>GET\<close>. With an entry running, the argument \<open>json={{}}\<close> raises
  \<open>TypeError\<close> before the \<open>PUT\<close> is made, so that no \<open>PUT\<close> is ever sent and the
  function never returns an entry.
\<close>

lemma stop_active_time_entry_idle:
  assumes "get_headers env = Inr h"
    and "remote env log \<lparr>meth = GET, endpoint = CurrentTimeEntry, api_key = h, json_body = None\<rparr>
           = Response st (Inr current_entry)"
    and "\<not> (400 \<le> st \<and> st < 600)"
    and "\<not> truthy current_entry"
  shows "stop_active_time_entry env log =
           (Inr PNone,
            log @ [\<lparr>meth = GET, endpoint = CurrentTimeEntry, api_key = h, json_body = None\<rparr>])"
  using assms by (simp add: stop_active_time_entry_def send_no_body checked_json_ok)

lemma stop_active_time_entry_running:
  assumes "get_headers env = Inr h"
    and "remote env log \<lparr>meth = GET, endpoint = CurrentTimeEntry, api_key = h, json_body = None\<rparr>
           = Response st (Inr current_entry)"
    and "\<not> (400 \<le> st \<and> st < 600)"
    and "truthy current_entry"
    and "py_subscript current_entry ''id'' = Inr time_entry_id"
  shows "stop_active_time_entry env log =
           (Inl (Error TypeError (''unhashable type: '' @ quote ''dict'')),
            log @ [\<lparr>meth = GET, endpoint = CurrentTimeEntry, api_key = h, json_body = None\<rparr>])"
  using assms by (simp add: stop_active_time_entry_def send_no_body checked_json_ok)

lemma stop_active_time_entry_sends_no_put:
  "rq \<in> set (snd (stop_active_time_entry env log)) \<Longrightarrow> rq \<in> set log \<or> meth rq = GET"
  by (auto simp add: stop_active_time_entry_def send_no_body
      split: sum.splits prod.splits if_splits)

lemma stop_active_time_entry_returns_falsy:
  "fst (stop_active_time_entry env log) = Inr v \<Longrightarrow> v = PNone"
  by (auto simp add: stop_active_time_entry_def send_no_body
      split: sum.splits prod.splits if_splits)

text \<open>
  Claim C1 at a running entry \<open>{"id": 5, "description": "coding"}\<close>: the call
  raises \<open>TypeError\<close> after the \<open>GET\<close> and returns no stopped entry.
\<close>

theorem stop_active_time_entry_running_raises:
  "stop_active_time_entry (sample_env (Inr []) sample_me) [] =
     (Inl (Error TypeError (''unhashable type: '' @ quote ''dict'')),
      [\<lparr>meth = GET, endpoint = CurrentTimeEntry, api_key = ''secret'', json_body = None\<rparr>])"
  using stop_active_time_entry_running [of "sample_env (Inr []) sample_me" "''secret''" "[]" 200
      "PDict [(''id'', PInt 5), (''description'', PStr ''coding'')]" "PInt 5"]
  by (simp add: sample_headers) (simp add: sample_env_def sample_remote_def)

text \<open>The requests of \<open>create_time_entry\<close>.\<close>

lemma json_serializable_payload:
  "json_serializable (entry_payload d p w a b n) \<longleftrightarrow>
     json_serializable d \<and> json_serializable p \<and> json_serializable w \<and> json_serializable n"
  by (simp add: entry_payload_def)




section \<open>The classifier\<close>

lemma py_setitem_dict:
  "py_setitem x k v = Inr y \<Longrightarrow> \<exists>d. x = PDict d \<and> y = PDict (dict_set d k v)"
  by (cases x) auto

lemma get_gemini_intent_dict: "\<exists>d. get_gemini_intent env text = Inr (PDict d)"
  by (auto simp add: get_gemini_intent_def classify_def split: option.splits sum.splits
      dest: py_setitem_dict)

lemma map_of_dict_set:
  "map_of (dict_set d k v) k' = (if k' = k then Some v else map_of d k')"
  by (induction d k v rule: dict_set.induct) auto

lemma user_data_get_dict_set:
  "user_data_get (dict_set ud k v) k' = (if k' = k then v else user_data_get ud k')"
  by (simp add: user_data_get_def map_of_dict_set)

section \<open>The handlers\<close>

lemma handle_text_message_classified:
  assumes "gemini_model env = Some model"
    and "get_gemini_intent env user_text = Inr (PDict d)"
    and "dispatch_action env (PDict d) (field (PDict d) ''action'')
           (case map_of d ''description'' of None \<Rightarrow> PStr user_text | Some v \<Rightarrow> v)
           (field (PDict d) ''duration_seconds'')
           (user_data_get ud ''selected_project_id'') log = (rs, cs, log1)"
  shows "handle_text_message env ud user_text log =
     \<lparr>replies = rs, calls = cs, requests = log1,
      user_data = dict_set ud ''last_intent'' (PDict d), raised = None\<rparr>"
  using assms
  by (simp add: handle_text_message_def field_def user_data_get_dict_set Let_def)

lemma voice_message_handler_classified:
  assumes "gemini_model env = Some model"
    and "download_voice env file_id = Inr audio_bytes"
    and "transcribe_audio env audio_bytes = Inr t"
    and "get_gemini_intent env t = Inr (PDict d)"
    and "dispatch_action env (PDict d) (field (PDict d) ''action'')
           (case map_of d ''description'' of None \<Rightarrow> PStr t | Some v \<Rightarrow> v)
           (field (PDict d) ''duration_seconds'')
           (user_data_get ud ''selected_project_id'') log = (rs, cs, log1)"
  shows "voice_message_handler env ud file_id log =
     \<lparr>replies = [Text ''Processing your voice message...'', Transcription t] @ rs,
      calls = cs, requests = log1,
      user_data = dict_set (dict_set ud ''last_transcription'' (PStr t)) ''last_intent'' (PDict d),
      raised = None\<rparr>"
  using assms
  by (simp add: voice_message_handler_def field_def user_data_get_dict_set Let_def)

lemma dispatch_start_timer_unselected:
  "\<not> truthy project_id \<Longrightarrow>
   dispatch_action env intent (PStr ''start_timer'') description duration_seconds project_id log
     = ([Text select_project_prompt], [], log)"
  by (simp add: dispatch_action_def toggl_action_def)

lemma dispatch_add_entry_no_duration:
  "truthy project_id \<Longrightarrow> \<not> truthy duration_seconds \<Longrightarrow>
   dispatch_action env intent (PStr ''add_entry'') description duration_seconds project_id log
     = ([Text need_duration_prompt], [], log)"
  by (simp add: dispatch_action_def toggl_action_def)

lemma dispatch_add_entry_unselected:
  "\<not> truthy project_id \<Longrightarrow>
   dispatch_action env intent (PStr ''add_entry'') description duration_seconds project_id log
     = ([Text select_project_prompt], [], log)"
  by (simp add: dispatch_action_def toggl_action_def)

lemma toggl_action_calls:
  "c \<in> set (fst (snd (toggl_action env intent action description duration_seconds project_id log)))
   \<Longrightarrow> (c = StartTimeEntry description project_id \<and> truthy project_id)
     \<or> (c = CreateTimeEntry description duration_seconds project_id
          \<and> truthy project_id \<and> truthy duration_seconds)
     \<or> c = StopActiveTimeEntry"
  by (auto simp add: toggl_action_def split: if_splits prod.splits sum.splits)

lemma dispatch_action_calls:
  "c \<in> set (fst (snd (dispatch_action env intent action description duration_seconds project_id log)))
   \<Longrightarrow> (c = StartTimeEntry description project_id \<and> truthy project_id)
     \<or> (c = CreateTimeEntry description duration_seconds project_id
          \<and> truthy project_id \<and> truthy duration_seconds)
     \<or> c = StopActiveTimeEntry"
  using toggl_action_calls [of c env intent action description duration_seconds project_id log]
  by (auto simp add: dispatch_action_def split: prod.splits sum.splits)

lemma sample_start_intent:
  "get_gemini_intent (sample_env (Inr start_reply) me) text
     = Inr (PDict [(''action'', PStr ''start_timer''), (''raw_text'', PStr text)])"
  by (simp add: get_gemini_intent_def classify_def sample_env_def start_reply_def extract_json_def
      strip_def lstrip_def rstrip_def isspace_def strip_fences_def strip_leading_fence_def
      strip_trailing_fence_def startswith_def endswith_def sample_loads_def json_ws_def suffix_def)

lemma sample_add_intent:
  "get_gemini_intent (sample_env (Inr add_reply) me) text
     = Inr (PDict [(''action'', PStr ''add_entry''), (''raw_text'', PStr text)])"
  by (simp add: get_gemini_intent_def classify_def sample_env_def add_reply_def extract_json_def
      strip_def lstrip_def rstrip_def isspace_def strip_fences_def strip_leading_fence_def
      strip_trailing_fence_def startswith_def endswith_def sample_loads_def json_ws_def suffix_def)

lemma get_gemini_intent_field:
  assumes "get_gemini_intent env text = Inr intent"
  obtains d where "intent = PDict d"
  using assms get_gemini_intent_dict [of env "text"] by auto

text \<open>
  Claim C6. When the classified action is \<open>start_timer\<close> and the stored
  \<open>selected_project_id\<close> is falsy (in particular when none is set), each of the
  two handlers answers with the prompt to select a project, calls no function
  of the time-tracking client and sends no request.
\<close>

theorem start_timer_without_project:
  assumes "gemini_model env = Some model"
    and "\<not> truthy (user_data_get ud ''selected_project_id'')"
  shows "(get_gemini_intent env text = Inr intent
          \<and> py_get intent ''action'' PNone = Inr (PStr ''start_timer'')
          \<longrightarrow> replies (handle_text_message env ud text log) = [Text select_project_prompt]
              \<and> calls (handle_text_message env ud text log) = []
              \<and> requests (handle_text_message env ud text log) = log)
       \<and> (download_voice env file_id = Inr audio_bytes
          \<and> transcribe_audio env audio_bytes = Inr t
          \<and> get_gemini_intent env t = Inr intent'
          \<and> py_get intent' ''action'' PNone = Inr (PStr ''start_timer'')
          \<longrightarrow> replies (voice_message_handler env ud file_id log)
                = [Text ''Processing your voice message...'', Transcription t,
                   Text select_project_prompt]
              \<and> calls (voice_message_handler env ud file_id log) = []
              \<and> requests (voice_message_handler env ud file_id log) = log)"
proof (intro conjI impI)
  assume a: "get_gemini_intent env text = Inr intent
          \<and> py_get intent ''action'' PNone = Inr (PStr ''start_timer'')"
  then obtain d where d: "intent = PDict d" by (auto elim: get_gemini_intent_field)
  with a have act: "field (PDict d) ''action'' = PStr ''start_timer''"
    by (simp add: field_def)
  have h: "handle_text_message env ud text log =
     \<lparr>replies = [Text select_project_prompt], calls = [], requests = log,
      user_data = dict_set ud ''last_intent'' (PDict d), raised = None\<rparr>"
    using a d act assms
    by (intro handle_text_message_classified [where model = model])
       (simp_all add: dispatch_start_timer_unselected)
  show "replies (handle_text_message env ud text log) = [Text select_project_prompt]"
    "calls (handle_text_message env ud text log) = []"
    "requests (handle_text_message env ud text log) = log"
    by (simp_all add: h)
next
  assume a: "download_voice env file_id = Inr audio_bytes
          \<and> transcribe_audio env audio_bytes = Inr t
          \<and> get_gemini_intent env t = Inr intent'
          \<and> py_get intent' ''action'' PNone = Inr (PStr ''start_timer'')"
  then obtain d where d: "intent' = PDict d" by (auto elim: get_gemini_intent_field)
  with a have act: "field (PDict d) ''action'' = PStr ''start_timer''"
    by (simp add: field_def)
  have h: "voice_message_handler env ud file_id log =
     \<lparr>replies = [Text ''Processing your voice message...'', Transcription t]
                 @ [Text select_project_prompt],
      calls = [], requests = log,
      user_data = dict_set (dict_set ud ''last_transcription'' (PStr t)) ''last_intent'' (PDict d),
      raised = None\<rparr>"
    using a d act assms
    by (intro voice_message_handler_classified [where audio_bytes = audio_bytes and model = model])
       (simp_all add: dispatch_start_timer_unselected)
  show "replies (voice_message_handler env ud file_id log)
                = [Text ''Processing your voice message...'', Transcription t,
                   Text select_project_prompt]"
    "calls (voice_message_handler env ud file_id log) = []"
    "requests (voice_message_handler env ud file_id log) = log"
    by (simp_all add: h)
qed

lemma sample_gemini:
  "gemini_model (sample_env r me) =
     Some \<lparr>generate_intent = (\<lambda>text. r),
           generate_audio = (\<lambda>audio. Inr ''add half an hour of reading'')\<rparr>"
  by (simp add: sample_env_def)

lemma sample_voice:
  "download_voice (sample_env r me) file_id = Inr ''OggS''"
  "transcribe_audio (sample_env r me) audio = Inr ''add half an hour of reading''"
  by (simp_all add: sample_env_def transcribe_audio_def)

theorem start_timer_without_project_witness:
  "replies (handle_text_message (sample_env (Inr start_reply) sample_me) [] ''start reading'' [])
     = [Text select_project_prompt]
   \<and> calls (handle_text_message (sample_env (Inr start_reply) sample_me) [] ''start reading'' []) = []
   \<and> requests (handle_text_message (sample_env (Inr start_reply) sample_me) [] ''start reading'' []) = []
   \<and> replies (voice_message_handler (sample_env (Inr start_reply) sample_me) [] ''voice-1'' [])
     = [Text ''Processing your voice message...'', Transcription ''add half an hour of reading'',
        Text select_project_prompt]
   \<and> calls (voice_message_handler (sample_env (Inr start_reply) sample_me) [] ''voice-1'' []) = []
   \<and> requests (voice_message_handler (sample_env (Inr start_reply) sample_me) [] ''voice-1'' []) = []"
  using start_timer_without_project [OF sample_gemini, of "[]" "Inr start_reply" sample_me
      "''start reading''"
      "PDict [(''action'', PStr ''start_timer''), (''raw_text'', PStr ''start reading'')]" "[]"
      "''voice-1''" "''OggS''" "''add half an hour of reading''"
      "PDict [(''action'', PStr ''start_timer''), (''raw_text'', PStr ''add half an hour of reading'')]"]
  by (simp add: sample_start_intent sample_voice user_data_get_def)

lemma sample_add_1800_intent:
  "get_gemini_intent (sample_env (Inr add_1800_reply) me) text'
     = Inr (PDict [(''action'', PStr ''add_entry''), (''duration_seconds'', PInt 1800),
                   (''raw_text'', PStr text')])"
  by (simp add: get_gemini_intent_def classify_def sample_env_def add_1800_reply_def extract_json_def
      strip_def lstrip_def rstrip_def isspace_def strip_fences_def strip_leading_fence_def
      strip_trailing_fence_def startswith_def endswith_def sample_loads_def json_ws_def suffix_def)

lemma sample_broken_loads:
  "json_loads (sample_env r me) (extract_json broken_reply)
     = Inl (Error JSONDecodeError ''Expecting value: line 1 column 1 (char 0)'')"
  by (simp add: sample_env_def broken_reply_def extract_json_def
      strip_def lstrip_def rstrip_def isspace_def strip_fences_def strip_leading_fence_def
      strip_trailing_fence_def startswith_def endswith_def sample_loads_def json_ws_def suffix_def)

section \<open>The client calls of a handler\<close>

lemma handle_text_message_calls:
  assumes "c \<in> set (calls (handle_text_message env ud user_text log))"
  shows "\<exists>d. get_gemini_intent env user_text = Inr (PDict d) \<and>
     c \<in> set (fst (snd (dispatch_action env (PDict d) (field (PDict d) ''action'')
           (case map_of d ''description'' of None \<Rightarrow> PStr user_text | Some v \<Rightarrow> v)
           (field (PDict d) ''duration_seconds'')
           (user_data_get ud ''selected_project_id'') log)))"
proof (cases "gemini_model env")
  case None
  with assms show ?thesis by (simp add: handle_text_message_def)
next
  case (Some model)
  obtain d where d: "get_gemini_intent env user_text = Inr (PDict d)"
    using get_gemini_intent_dict by blast
  obtain rs cs log1 where r: "dispatch_action env (PDict d) (field (PDict d) ''action'')
           (case map_of d ''description'' of None \<Rightarrow> PStr user_text | Some v \<Rightarrow> v)
           (field (PDict d) ''duration_seconds'')
           (user_data_get ud ''selected_project_id'') log = (rs, cs, log1)"
    by (metis prod_cases3)
  from assms show ?thesis
    by (auto simp add: handle_text_message_classified [OF Some d r] d r)
qed

lemma voice_message_handler_calls:
  assumes "c \<in> set (calls (voice_message_handler env ud file_id log))"
  shows "\<exists>audio_bytes t d. download_voice env file_id = Inr audio_bytes \<and>
     transcribe_audio env audio_bytes = Inr t \<and>
     get_gemini_intent env t = Inr (PDict d) \<and>
     c \<in> set (fst (snd (dispatch_action env (PDict d) (field (PDict d) ''action'')
           (case map_of d ''description'' of None \<Rightarrow> PStr t | Some v \<Rightarrow> v)
           (field (PDict d) ''duration_seconds'')
           (user_data_get ud ''selected_project_id'') log)))"
proof (cases "gemini_model env")
  case None
  with assms show ?thesis by (simp add: voice_message_handler_def)
next
  case (Some model)
  show ?thesis
  proof (cases "download_voice env file_id")
    case (Inl e)
    with assms Some show ?thesis by (simp add: voice_message_handler_def)
  next
    case (Inr audio_bytes)
    note dl = this
    show ?thesis
    proof (cases "transcribe_audio env audio_bytes")
      case (Inl e)
      with assms Some dl show ?thesis by (simp add: voice_message_handler_def)
    next
      case (Inr t)
      obtain d where d: "get_gemini_intent env t = Inr (PDict d)"
        using get_gemini_intent_dict by blast
      obtain rs cs log1 where r: "dispatch_action env (PDict d) (field (PDict d) ''action'')
           (case map_of d ''description'' of None \<Rightarrow> PStr t | Some v \<Rightarrow> v)
           (field (PDict d) ''duration_seconds'')
           (user_data_get ud ''selected_project_id'') log = (rs, cs, log1)"
        by (metis prod_cases3)
      from assms show ?thesis
        by (auto simp add: voice_message_handler_classified [OF Some dl Inr d r] d r dl Inr)
    qed
  qed
qed

text \<open>
  Claim C5, as stated, at the selected project id 0 and an \<open>add_entry\<close> intent
  without a duration: the answer is the prompt to select a project, not the
  prompt for a duration.
\<close>

theorem add_entry_project_zero_counterexample:
  "user_data_get [(''selected_project_id'', PInt 0)] ''selected_project_id'' = PInt 0
   \<and> get_gemini_intent (sample_env (Inr add_reply) sample_me) ''add it''
       = Inr (PDict [(''action'', PStr ''add_entry''), (''raw_text'', PStr ''add it'')])
   \<and> replies (handle_text_message (sample_env (Inr add_reply) sample_me)
                [(''selected_project_id'', PInt 0)] ''add it'' [])
       = [Text select_project_prompt]
   \<and> replies (handle_text_message (sample_env (Inr add_reply) sample_me)
                [(''selected_project_id'', PInt 0)] ''add it'' [])
       \<noteq> [Text need_duration_prompt]"
proof -
  have h: "handle_text_message (sample_env (Inr add_reply) sample_me)
       [(''selected_project_id'', PInt 0)] ''add it'' [] =
     \<lparr>replies = [Text select_project_prompt], calls = [], requests = [],
      user_data = dict_set [(''selected_project_id'', PInt 0)] ''last_intent''
        (PDict [(''action'', PStr ''add_entry''), (''raw_text'', PStr ''add it'')]),
      raised = None\<rparr>"
    by (rule handle_text_message_classified [OF sample_gemini sample_add_intent])
       (simp add: field_def user_data_get_def dispatch_add_entry_unselected)
  show ?thesis
    by (simp add: h sample_add_intent user_data_get_def select_project_prompt_def
        need_duration_prompt_def)
qed

lemma add_entry_prompts:
  assumes "truthy (user_data_get ud ''selected_project_id'')"
  shows "(gemini_model env = Some model
          \<and> get_gemini_intent env user_text = Inr intent
          \<and> py_get intent ''action'' PNone = Inr (PStr ''add_entry'')
          \<and> py_get intent ''duration_seconds'' PNone = Inr PNone
          \<longrightarrow> replies (handle_text_message env ud user_text log) = [Text need_duration_prompt]
              \<and> calls (handle_text_message env ud user_text log) = []
              \<and> requests (handle_text_message env ud user_text log) = log)
       \<and> (gemini_model env = Some model
          \<and> download_voice env file_id = Inr audio_bytes
          \<and> transcribe_audio env audio_bytes = Inr t
          \<and> get_gemini_intent env t = Inr intent'
          \<and> py_get intent' ''action'' PNone = Inr (PStr ''add_entry'')
          \<and> py_get intent' ''duration_seconds'' PNone = Inr PNone
          \<longrightarrow> replies (voice_message_handler env ud file_id log)
                = [Text ''Processing your voice message...'', Transcription t,
                   Text need_duration_prompt]
              \<and> calls (voice_message_handler env ud file_id log) = []
              \<and> requests (voice_message_handler env ud file_id log) = log)"
proof (intro conjI impI)
  assume a: "gemini_model env = Some model
          \<and> get_gemini_intent env user_text = Inr intent
          \<and> py_get intent ''action'' PNone = Inr (PStr ''add_entry'')
          \<and> py_get intent ''duration_seconds'' PNone = Inr PNone"
  then obtain d where d: "intent = PDict d" by (auto elim: get_gemini_intent_field)
  with a have act: "field (PDict d) ''action'' = PStr ''add_entry''"
    and dur: "field (PDict d) ''duration_seconds'' = PNone"
    by (simp_all add: field_def)
  have h: "handle_text_message env ud user_text log =
     \<lparr>replies = [Text need_duration_prompt], calls = [], requests = log,
      user_data = dict_set ud ''last_intent'' (PDict d), raised = None\<rparr>"
    using a d act dur assms
    by (intro handle_text_message_classified [where model = model])
       (simp_all add: dispatch_add_entry_no_duration)
  show "replies (handle_text_message env ud user_text log) = [Text need_duration_prompt]"
    "calls (handle_text_message env ud user_text log) = []"
    "requests (handle_text_message env ud user_text log) = log"
    by (simp_all add: h)
next
  assume a: "gemini_model env = Some model
          \<and> download_voice env file_id = Inr audio_bytes
          \<and> transcribe_audio env audio_bytes = Inr t
          \<and> get_gemini_intent env t = Inr intent'
          \<and> py_get intent' ''action'' PNone = Inr (PStr ''add_entry'')
          \<and> py_get intent' ''duration_seconds'' PNone = Inr PNone"
  then obtain d where d: "intent' = PDict d" by (auto elim: get_gemini_intent_field)
  with a have act: "field (PDict d) ''action'' = PStr ''add_entry''"
    and dur: "field (PDict d) ''duration_seconds'' = PNone"
    by (simp_all add: field_def)
  have h: "voice_message_handler env ud file_id log =
     \<lparr>replies = [Text ''Processing your voice message...'', Transcription t]
                 @ [Text need_duration_prompt],
      calls = [], requests = log,
      user_data = dict_set (dict_set ud ''last_transcription'' (PStr t)) ''last_intent'' (PDict d),
      raised = None\<rparr>"
    using a d act dur assms
    by (intro voice_message_handler_classified [where audio_bytes = audio_bytes and model = model])
       (simp_all add: dispatch_add_entry_no_duration)
  show "replies (voice_message_handler env ud file_id log)
                = [Text ''Processing your voice message...'', Transcription t,
                   Text need_duration_prompt]"
    "calls (voice_message_handler env ud file_id log) = []"
    "requests (voice_message_handler env ud file_id log) = log"
    by (simp_all add: h)
qed

lemma create_time_entry_call_requires:
  "(CreateTimeEntry x n p \<in> set (calls (handle_text_message env ud user_text log))
      \<longrightarrow> p = user_data_get ud ''selected_project_id'' \<and> truthy p \<and> truthy n \<and> n \<noteq> PNone)
   \<and> (CreateTimeEntry x n p \<in> set (calls (voice_message_handler env ud file_id log))
      \<longrightarrow> p = user_data_get ud ''selected_project_id'' \<and> truthy p \<and> truthy n \<and> n \<noteq> PNone)"
  by (auto dest!: handle_text_message_calls voice_message_handler_calls dispatch_action_calls)

lemma sample_create_call:
  "calls (handle_text_message (sample_env (Inr add_1800_reply) sample_me)
            [(''selected_project_id'', PInt 3)] ''add half an hour'' [])
     = [CreateTimeEntry (PStr ''add half an hour'') (PInt 1800) (PInt 3)]"
proof -
  have "handle_text_message (sample_env (Inr add_1800_reply) sample_me)
            [(''selected_project_id'', PInt 3)] ''add half an hour'' [] =
     \<lparr>replies = fst (dispatch_action (sample_env (Inr add_1800_reply) sample_me)
          (PDict [(''action'', PStr ''add_entry''), (''duration_seconds'', PInt 1800),
                  (''raw_text'', PStr ''add half an hour'')])
          (PStr ''add_entry'') (PStr ''add half an hour'') (PInt 1800) (PInt 3) []),
      calls = [CreateTimeEntry (PStr ''add half an hour'') (PInt 1800) (PInt 3)],
      requests = snd (snd (dispatch_action (sample_env (Inr add_1800_reply) sample_me)
          (PDict [(''action'', PStr ''add_entry''), (''duration_seconds'', PInt 1800),
                  (''raw_text'', PStr ''add half an hour'')])
          (PStr ''add_entry'') (PStr ''add half an hour'') (PInt 1800) (PInt 3) [])),
      user_data = dict_set [(''selected_project_id'', PInt 3)] ''last_intent''
        (PDict [(''action'', PStr ''add_entry''), (''duration_seconds'', PInt 1800),
                (''raw_text'', PStr ''add half an hour'')]),
      raised = None\<rparr>"
    by (rule handle_text_message_classified [OF sample_gemini sample_add_1800_intent])
       (simp add: field_def user_data_get_def dispatch_action_def toggl_action_def
          split: prod.splits sum.splits)
  then show ?thesis by simp
qed

text \<open>
  Claim C5, amended. When the classified action is \<open>add_entry\<close>, the stored
  \<open>selected_project_id\<close> is truthy (a project id other than 0) and the intent
  has no \<open>duration_seconds\<close> or a null one, each of the two handlers answers
  with the prompt for a duration, calls no function of the time-tracking client
  and sends no request. And a handler calls \<open>create_time_entry\<close> only with the
  stored project id, which is then truthy, and with a duration that is truthy,
  hence not null.
\<close>

theorem add_entry_without_duration:
  assumes "truthy (user_data_get ud ''selected_project_id'')"
  shows "(gemini_model env = Some model
          \<and> get_gemini_intent env user_text = Inr intent
          \<and> py_get intent ''action'' PNone = Inr (PStr ''add_entry'')
          \<and> py_get intent ''duration_seconds'' PNone = Inr PNone
          \<longrightarrow> replies (handle_text_message env ud user_text log) = [Text need_duration_prompt]
              \<and> calls (handle_text_message env ud user_text log) = []
              \<and> requests (handle_text_message env ud user_text log) = log)
       \<and> (gemini_model env = Some model
          \<and> download_voice env file_id = Inr audio_bytes
          \<and> transcribe_audio env audio_bytes = Inr t
          \<and> get_gemini_intent env t = Inr intent'
          \<and> py_get intent' ''action'' PNone = Inr (PStr ''add_entry'')
          \<and> py_get intent' ''duration_seconds'' PNone = Inr PNone
          \<longrightarrow> replies (voice_message_handler env ud file_id log)
                = [Text ''Processing your voice message...'', Transcription t,
                   Text need_duration_prompt]
              \<and> calls (voice_message_handler env ud file_id log) = []
              \<and> requests (voice_message_handler env ud file_id log) = log)
       \<and> (CreateTimeEntry x n p \<in> set (calls (handle_text_message env_b ud_b text_b log_b))
          \<longrightarrow> p = user_data_get ud_b ''selected_project_id'' \<and> truthy p \<and> truthy n \<and> n \<noteq> PNone)
       \<and> (CreateTimeEntry x n p \<in> set (calls (voice_message_handler env_b ud_b file_b log_b))
          \<longrightarrow> p = user_data_get ud_b ''selected_project_id'' \<and> truthy p \<and> truthy n \<and> n \<noteq> PNone)"
  using add_entry_prompts [OF assms, of env model user_text intent log file_id audio_bytes t intent']
    create_time_entry_call_requires [of x n p env_b ud_b text_b log_b file_b]
  by blast

theorem add_entry_without_duration_witness:
  "truthy (user_data_get [(''selected_project_id'', PInt 3)] ''selected_project_id'')
   \<and> replies (handle_text_message (sample_env (Inr add_reply) sample_me)
                [(''selected_project_id'', PInt 3)] ''add it'' [])
       = [Text need_duration_prompt]
   \<and> calls (handle_text_message (sample_env (Inr add_reply) sample_me)
                [(''selected_project_id'', PInt 3)] ''add it'' []) = []
   \<and> requests (handle_text_message (sample_env (Inr add_reply) sample_me)
                [(''selected_project_id'', PInt 3)] ''add it'' []) = []
   \<and> replies (voice_message_handler (sample_env (Inr add_reply) sample_me)
                [(''selected_project_id'', PInt 3)] ''voice-1'' [])
       = [Text ''Processing your voice message...'', Transcription ''add half an hour of reading'',
          Text need_duration_prompt]
   \<and> calls (voice_message_handler (sample_env (Inr add_reply) sample_me)
                [(''selected_project_id'', PInt 3)] ''voice-1'' []) = []
   \<and> requests (voice_message_handler (sample_env (Inr add_reply) sample_me)
                [(''selected_project_id'', PInt 3)] ''voice-1'' []) = []
   \<and> CreateTimeEntry (PStr ''add half an hour'') (PInt 1800) (PInt 3)
       \<in> set (calls (handle_text_message (sample_env (Inr add_1800_reply) sample_me)
                 [(''selected_project_id'', PInt 3)] ''add half an hour'' []))
   \<and> truthy (PInt 3) \<and> truthy (PInt 1800) \<and> PInt 1800 \<noteq> PNone"
  using add_entry_without_duration [where ud = "[(''selected_project_id'', PInt 3)]"
      and env = "sample_env (Inr add_reply) sample_me" and user_text = "''add it''"
      and intent = "PDict [(''action'', PStr ''add_entry''), (''raw_text'', PStr ''add it'')]"
      and log = "[]" and file_id = "''voice-1''" and audio_bytes = "''OggS''"
      and t = "''add half an hour of reading''"
      and intent' = "PDict [(''action'', PStr ''add_entry''),
                            (''raw_text'', PStr ''add half an hour of reading'')]"
      and model = "\<lparr>generate_intent = (\<lambda>text. Inr add_reply),
           generate_audio = (\<lambda>audio. Inr ''add half an hour of reading'')\<rparr>"
      and x = "PStr ''add half an hour''" and n = "PInt 1800" and p = "PInt 3"
      and env_b = "sample_env (Inr add_1800_reply) sample_me"
      and ud_b = "[(''selected_project_id'', PInt 3)]" and text_b = "''add half an hour''"
      and log_b = "[]"]
  by (simp add: sample_add_intent sample_voice sample_gemini user_data_get_def sample_create_call)

section \<open>The description passed on\<close>






text \<open>
  Claim C7. \<open>get_gemini_intent\<close> always returns an intent and never raises.
  When the call of the model fails, or the text extracted from its reply does
  not parse, the intent is \<open>{action: none, raw_text: text, error: str(e)}\<close>.
\<close>

theorem get_gemini_intent_swallows_failures:
  "(\<exists>intent. get_gemini_intent env user_text = Inr intent)
   \<and> (gemini_model env = Some model
       \<and> (generate_intent model user_text = Inl e
          \<or> (generate_intent model user_text = Inr reply_text
              \<and> json_loads env (extract_json reply_text) = Inl e))
      \<longrightarrow> get_gemini_intent env user_text
            = Inr (PDict [(''action'', PStr ''none''), (''raw_text'', PStr user_text),
                          (''error'', PStr (message e))]))"
  using get_gemini_intent_dict [of env user_text]
  by (auto simp add: get_gemini_intent_def classify_def)

theorem get_gemini_intent_swallows_failures_witness:
  "get_gemini_intent (sample_env (Inl (Error OtherException ''503 model overloaded'')) sample_me)
      ''stop it''
     = Inr (PDict [(''action'', PStr ''none''), (''raw_text'', PStr ''stop it''),
                   (''error'', PStr ''503 model overloaded'')])
   \<and> get_gemini_intent (sample_env (Inr broken_reply) sample_me) ''stop it''
     = Inr (PDict [(''action'', PStr ''none''), (''raw_text'', PStr ''stop it''),
                   (''error'', PStr ''Expecting value: line 1 column 1 (char 0)'')])"
  using get_gemini_intent_swallows_failures
      [where env = "sample_env (Inl (Error OtherException ''503 model overloaded'')) sample_me"
       and user_text = "''stop it''" and e = "Error OtherException ''503 model overloaded''"
       and model = "\<lparr>generate_intent = (\<lambda>text. Inl (Error OtherException ''503 model overloaded'')),
           generate_audio = (\<lambda>audio. Inr ''add half an hour of reading'')\<rparr>"]
    get_gemini_intent_swallows_failures
      [where env = "sample_env (Inr broken_reply) sample_me"
       and user_text = "''stop it''" and reply_text = broken_reply
       and e = "Error JSONDecodeError ''Expecting value: line 1 column 1 (char 0)''"
       and model = "\<lparr>generate_intent = (\<lambda>text. Inr broken_reply),
           generate_audio = (\<lambda>audio. Inr ''add half an hour of reading'')\<rparr>"]
  by (simp add: sample_gemini sample_broken_loads)

section \<open>Code fences\<close>






lemma lstrip_suffix: "suffix (lstrip s) s"
  unfolding lstrip_def by (rule suffix_dropWhile)










section \<open>Texts without a fence\<close>
















end
